theory Spec2Isabelle
  imports Main
begin

section \<open>The compose\_whitelist resource: data model\<close>

text \<open>
  A whitelist entry as the remote service lists it
  (\<^verbatim>\<open>composeapi.Whitelist\<close>: the fields the provider reads).
\<close>

record Whitelist =
  ID :: string
  IP :: string
  Description :: string

text \<open>
  Go values of type \<^verbatim>\<open>error\<close> that the provider builds or passes on. An error of the
  API client is known by its message only; \<open>Errorf\<close> keeps the format string and the
  \<^verbatim>\<open>[]error\<close> argument apart instead of rendering them.
\<close>

datatype error =
    ApiError string
  | Errorf string "string list"
  | ErrorsNew string
  | TimeoutError

text \<open>A Go call either returns or panics; the only panic of this code is an index out of range.\<close>

datatype panic = IndexOutOfRange

datatype 'a go = Returns 'a | Panics panic

subsection \<open>The remote service and the clock\<close>

datatype call =
    AddCall string Whitelist
  | GetCall string
  | DeleteCall string string

text \<open>
  The world the provider runs in: a logical clock in nanoseconds (the unit of
  \<^verbatim>\<open>time.Duration\<close>), the API calls made so far, and for every future sleep by how much it
  overshoots the duration asked for.
\<close>

record world =
  clock :: nat
  calls :: "call list"
  oversleep :: "nat list"

text \<open>
  The API client is the environment: what each endpoint answers is a parameter, and may
  depend on the time and on the calls made before. A write answers \<open>None\<close> (Go
  \<^verbatim>\<open>nil\<close>) or a slice of errors; a read answers a slice of errors or the listing.
\<close>

record Client =
  add_response :: "world \<Rightarrow> string \<Rightarrow> Whitelist \<Rightarrow> string list option"
  get_response :: "world \<Rightarrow> string \<Rightarrow> string list + Whitelist list"
  delete_response :: "world \<Rightarrow> string \<Rightarrow> string \<Rightarrow> string list option"

definition AddWhitelistForDeployment ::
  "Client \<Rightarrow> string \<Rightarrow> Whitelist \<Rightarrow> world \<Rightarrow> string list option \<times> world" where
  "AddWhitelistForDeployment client deploymentID whitelist w =
     (add_response client w deploymentID whitelist,
      w\<lparr>calls := calls w @ [AddCall deploymentID whitelist]\<rparr>)"

definition GetWhitelistForDeployment ::
  "Client \<Rightarrow> string \<Rightarrow> world \<Rightarrow> (string list + Whitelist list) \<times> world" where
  "GetWhitelistForDeployment client deploymentID w =
     (get_response client w deploymentID,
      w\<lparr>calls := calls w @ [GetCall deploymentID]\<rparr>)"

definition DeleteWhitelistForDeployment ::
  "Client \<Rightarrow> string \<Rightarrow> string \<Rightarrow> world \<Rightarrow> string list option \<times> world" where
  "DeleteWhitelistForDeployment client deploymentID whitelistID w =
     (delete_response client w deploymentID whitelistID,
      w\<lparr>calls := calls w @ [DeleteCall deploymentID whitelistID]\<rparr>)"

definition sleep :: "nat \<Rightarrow> world \<Rightarrow> world" where
  "sleep d w =
     (case oversleep w of
        [] \<Rightarrow> w\<lparr>clock := clock w + d\<rparr>
      | x # xs \<Rightarrow> w\<lparr>clock := clock w + d + x, oversleep := xs\<rparr>)"

definition Second :: nat where
  "Second = 1000000000"

definition Minute :: nat where
  "Minute = 60 * Second"

subsection \<open>The local resource state\<close>

text \<open>
  \<^verbatim>\<open>schema.ResourceData\<close>: the identifier and the string attributes of the schema
  (\<^verbatim>\<open>ip\<close>, \<^verbatim>\<open>description\<close>, \<^verbatim>\<open>deployment_id\<close>); an attribute never set reads as the
  empty string.
\<close>

record ResourceData =
  rd_id :: string
  rd_attrs :: "string \<Rightarrow> string"

definition Id' :: "ResourceData \<Rightarrow> string" where
  "Id' d = rd_id d"

definition SetId :: "ResourceData \<Rightarrow> string \<Rightarrow> ResourceData" where
  "SetId d v = d\<lparr>rd_id := v\<rparr>"

definition Get :: "ResourceData \<Rightarrow> string \<Rightarrow> string" where
  "Get d k = rd_attrs d k"

definition SetAttr :: "ResourceData \<Rightarrow> string \<Rightarrow> string \<Rightarrow> ResourceData" where
  "SetAttr d k v = d\<lparr>rd_attrs := (rd_attrs d)(k := v)\<rparr>"

section \<open>The polling predicate\<close>

type_synonym StateRefreshFunc =
  "world \<Rightarrow> (string option \<times> string \<times> error option) go \<times> world"

text \<open>
  \<^verbatim>\<open>whitelistCompletedRefreshFunc\<close>: one listing, then a linear scan for the first entry
  whose IP is the target. \<^verbatim>\<open>err[0]\<close> on an empty slice of errors panics.
\<close>

definition whitelistCompletedRefreshFunc ::
  "Client \<Rightarrow> string \<Rightarrow> string \<Rightarrow> StateRefreshFunc" where
  "whitelistCompletedRefreshFunc client deploymentid whitelistip = (\<lambda>w.
     case GetWhitelistForDeployment client deploymentid w of
       (Inl err, w1) \<Rightarrow>
         (case err of
            [] \<Rightarrow> (Panics IndexOutOfRange, w1)
          | e # _ \<Rightarrow> (Returns (None, [], Some (ApiError e)), w1))
     | (Inr whitelist, w1) \<Rightarrow>
         (case find (\<lambda>whitelistEntry. IP whitelistEntry = whitelistip) whitelist of
            Some whitelistEntry \<Rightarrow> (Returns (Some (ID whitelistEntry), ''existing'', None), w1)
          | None \<Rightarrow> (Returns (None, [], None), w1)))"

section \<open>The reconciler\<close>

record StateChangeConf =
  Pending :: "string list"
  Target :: "string list"
  Refresh :: StateRefreshFunc
  Timeout :: nat
  Delay :: nat
  MinTimeout :: nat

datatype PollState = pending | settled

text \<open>
  Modelled from the spec: \<^verbatim>\<open>StateChangeConf.WaitForState\<close> of the vendored package
  \<^verbatim>\<open>helper/resource\<close>, which is not among the sources. Section 4.1 of the specification:
  a found entry settles the create path, whose target is a state; on the delete path,
  whose list of target states is empty, settled means absent. The specification gives
  the list of pending states no part in this.
\<close>

definition classify :: "StateChangeConf \<Rightarrow> string option \<Rightarrow> string \<Rightarrow> PollState" where
  "classify conf res currentState =
     (if Target conf = []
      then (if res = None then settled else pending)
      else (if res \<noteq> None \<and> currentState \<in> set (Target conf) then settled else pending))"

text \<open>
  Modelled from the spec: the polling loop of \<^verbatim>\<open>WaitForState\<close> (section 4.1). Invoke the
  predicate; an error of the predicate is returned at once; a settled state returns the
  value the predicate carried; otherwise wait at least the minimum interval, and give up
  with a timeout error once the time elapsed since the start exceeds the timeout. A loop
  that never ends has the value \<open>None\<close>.
\<close>

partial_function (option) poll ::
  "StateChangeConf \<Rightarrow> nat \<Rightarrow> world \<Rightarrow> ((string option \<times> error option) go \<times> world) option" where
  "poll conf start w =
     (case Refresh conf w of
        (Panics p, w1) \<Rightarrow> Some (Panics p, w1)
      | (Returns (res, currentState, Some err), w1) \<Rightarrow> Some (Returns (None, Some err), w1)
      | (Returns (res, currentState, None), w1) \<Rightarrow>
          if classify conf res currentState = settled then Some (Returns (res, None), w1)
          else (let w2 = sleep (MinTimeout conf) w1 in
                if clock w2 - start > Timeout conf
                then Some (Returns (None, Some TimeoutError), w2)
                else poll conf start w2))"

declare poll.simps [code]

text \<open>
  Modelled from the spec: \<^verbatim>\<open>WaitForState\<close> polls for the first time immediately after
  the initial delay; the timeout counts from the call.
\<close>

definition WaitForState ::
  "StateChangeConf \<Rightarrow> world \<Rightarrow> ((string option \<times> error option) go \<times> world) option" where
  "WaitForState conf w = poll conf (clock w) (w\<lparr>clock := clock w + Delay conf\<rparr>)"

section \<open>The entry points of the resource\<close>

definition resourceComposeWhitelistRead ::
  "Client \<Rightarrow> ResourceData \<Rightarrow> world \<Rightarrow> error option go \<times> ResourceData \<times> world" where
  "resourceComposeWhitelistRead client d w =
     (let deploymentID = Get d ''deployment_id'' in
      case GetWhitelistForDeployment client deploymentID w of
        (Inl errs, w1) \<Rightarrow>
          (Returns (Some (Errorf ''Error querying whitelist entry: %s'' errs)), d, w1)
      | (Inr whitelist, w1) \<Rightarrow>
          (case find (\<lambda>whitelistEntry. ID whitelistEntry = Id' d) whitelist of
             Some whitelistEntry \<Rightarrow>
               (Returns None,
                SetAttr (SetAttr d ''description'' (Description whitelistEntry))
                  ''ip'' (IP whitelistEntry),
                w1)
           | None \<Rightarrow> (Returns None, SetId d [], w1)))"

text \<open>The \<^verbatim>\<open>StateChangeConf\<close> that create builds, and create itself.\<close>

definition createStateChangeConf :: "Client \<Rightarrow> string \<Rightarrow> string \<Rightarrow> StateChangeConf" where
  "createStateChangeConf client deploymentID ip =
     \<lparr>Pending = [],
      Target = [''existing''],
      Refresh = whitelistCompletedRefreshFunc client deploymentID ip,
      Timeout = 5 * Minute,
      Delay = 10 * Second,
      MinTimeout = 3 * Second\<rparr>"

definition resourceComposeWhitelistCreate ::
  "Client \<Rightarrow> ResourceData \<Rightarrow> world \<Rightarrow> (error option go \<times> ResourceData \<times> world) option" where
  "resourceComposeWhitelistCreate client d w =
     (let deploymentID = Get d ''deployment_id'';
          ip = Get d ''ip'';
          description = Get d ''description'';
          whitelist = \<lparr>ID = [], IP = ip, Description = description\<rparr>
      in case AddWhitelistForDeployment client deploymentID whitelist w of
        (Some errs, w1) \<Rightarrow>
          Some (Returns (Some (Errorf ''Error adding whitelist entry: %s'' errs)), d, w1)
      | (None, w1) \<Rightarrow>
          (case WaitForState (createStateChangeConf client deploymentID ip) w1 of
             None \<Rightarrow> None
           | Some (Panics p, w2) \<Rightarrow> Some (Panics p, d, w2)
           | Some (Returns (_, Some err), w2) \<Rightarrow> Some (Returns (Some err), d, w2)
           | Some (Returns (_, None), w2) \<Rightarrow>
               (case GetWhitelistForDeployment client deploymentID w2 of
                  (Inl errs, w3) \<Rightarrow>
                    Some (Returns (Some (Errorf ''Error querying whitelist entry: %s'' errs)),
                          d, w3)
                | (Inr newWhitelist, w3) \<Rightarrow>
                    (case find (\<lambda>whitelistEntry. Description whitelistEntry = description)
                            newWhitelist of
                       Some whitelistEntry \<Rightarrow>
                         Some (resourceComposeWhitelistRead client
                                 (SetId d (ID whitelistEntry)) w3)
                     | None \<Rightarrow>
                         Some (Returns (Some (ErrorsNew
                                 ''Failed to find newly created whitelist entry'')),
                               d, w3)))))"

text \<open>The \<^verbatim>\<open>StateChangeConf\<close> that delete builds, and delete itself.\<close>

definition deleteStateChangeConf :: "Client \<Rightarrow> string \<Rightarrow> string \<Rightarrow> StateChangeConf" where
  "deleteStateChangeConf client deploymentID ip =
     \<lparr>Pending = [''existing''],
      Target = [],
      Refresh = whitelistCompletedRefreshFunc client deploymentID ip,
      Timeout = 5 * Minute,
      Delay = 10 * Second,
      MinTimeout = 3 * Second\<rparr>"

definition resourceComposeWhitelistDelete ::
  "Client \<Rightarrow> ResourceData \<Rightarrow> world \<Rightarrow> (error option go \<times> ResourceData \<times> world) option" where
  "resourceComposeWhitelistDelete client d w =
     (let deploymentID = Get d ''deployment_id'' in
      case DeleteWhitelistForDeployment client deploymentID (Id' d) w of
        (Some errs, w1) \<Rightarrow>
          Some (Returns (Some (Errorf ''Error deleting whitelist entry: %s'' errs)), d, w1)
      | (None, w1) \<Rightarrow>
          (case WaitForState (deleteStateChangeConf client deploymentID (Get d ''ip'')) w1 of
             None \<Rightarrow> None
           | Some (Panics p, w2) \<Rightarrow> Some (Panics p, d, w2)
           | Some (Returns (_, Some err), w2) \<Rightarrow> Some (Returns (Some err), d, w2)
           | Some (Returns (_, None), w2) \<Rightarrow> Some (Returns None, d, w2)))"

text \<open>
  \<^verbatim>\<open>strings.Split(s, "@")\<close> for a separator of one character: the pieces between the
  separators, one more than there are separators. The second argument holds, reversed,
  the characters of the piece being read; a split starts with it empty.
\<close>

fun Split :: "char \<Rightarrow> string \<Rightarrow> string \<Rightarrow> string list" where
  "Split sep piece [] = [rev piece]"
| "Split sep piece (c # s) =
     (if c = sep then rev piece # Split sep [] s else Split sep (c # piece) s)"

definition resourceComposeWhitelistImport ::
  "Client \<Rightarrow> ResourceData \<Rightarrow> world \<Rightarrow>
     (ResourceData list \<times> error option) go \<times> ResourceData \<times> world" where
  "resourceComposeWhitelistImport client d w =
     (case Split CHR ''@'' [] (Id' d) of
        deploymentID # ip # _ \<Rightarrow>
          (case GetWhitelistForDeployment client deploymentID w of
             (Inl errs, w1) \<Rightarrow>
               (Returns ([], Some (Errorf ''Error querying whitelist entry: %s'' errs)), d, w1)
           | (Inr whitelist, w1) \<Rightarrow>
               (case find (\<lambda>whitelistEntry. IP whitelistEntry = ip) whitelist of
                  Some whitelistEntry \<Rightarrow>
                    (let d' = SetId
                           (SetAttr
                              (SetAttr (SetAttr d ''deployment_id'' deploymentID)
                                 ''description'' (Description whitelistEntry))
                              ''ip'' (IP whitelistEntry))
                           (ID whitelistEntry)
                     in (Returns ([d'], None), d', w1))
                | None \<Rightarrow>
                    (Returns ([], Some (Errorf ''Whitelist item not found'' [])), d, w1)))
      | _ \<Rightarrow> (Panics IndexOutOfRange, d, w))"

section \<open>Example environments\<close>

text \<open>Concrete worlds, listings and clients, on which the theorems below are evaluated.\<close>

definition world0 :: world where
  "world0 = \<lparr>clock = 0, calls = [], oversleep = []\<rparr>"

definition entry_a :: Whitelist where
  "entry_a = \<lparr>ID = ''a'', IP = ''1.1.1.1/32'', Description = ''x''\<rparr>"

definition entry_b :: Whitelist where
  "entry_b = \<lparr>ID = ''b'', IP = ''10.0.0.0/24'', Description = ''x''\<rparr>"

definition entry_c :: Whitelist where
  "entry_c = \<lparr>ID = ''c'', IP = ''10.0.0.0/24'', Description = ''y''\<rparr>"

text \<open>The local state of a resource not yet created: target IP \<^verbatim>\<open>10.0.0.0/24\<close>.\<close>

definition data0 :: ResourceData where
  "data0 =
     \<lparr>rd_id = [],
      rd_attrs = (\<lambda>k. [])
        (''deployment_id'' := ''d1'', ''ip'' := ''10.0.0.0/24'', ''description'' := ''x'')\<rparr>"

text \<open>A service whose listing never changes and whose writes succeed.\<close>

definition steady_client :: "Whitelist list \<Rightarrow> Client" where
  "steady_client whitelist =
     \<lparr>add_response = (\<lambda>w deploymentID e. None),
      get_response = (\<lambda>w deploymentID. Inr whitelist),
      delete_response = (\<lambda>w deploymentID whitelistID. None)\<rparr>"

text \<open>A service whose reads fail once \<open>n\<close> calls have been made.\<close>

definition flaky_client :: "nat \<Rightarrow> Whitelist list \<Rightarrow> Client" where
  "flaky_client n whitelist =
     \<lparr>add_response = (\<lambda>w deploymentID e. None),
      get_response = (\<lambda>w deploymentID.
        if length (calls w) < n then Inr whitelist else Inl [''unavailable'']),
      delete_response = (\<lambda>w deploymentID whitelistID. None)\<rparr>"

text \<open>A service that refuses every write.\<close>

definition refusing_client :: Client where
  "refusing_client =
     \<lparr>add_response = (\<lambda>w deploymentID e. Some [''denied'']),
      get_response = (\<lambda>w deploymentID. Inr []),
      delete_response = (\<lambda>w deploymentID whitelistID. Some [''denied''])\<rparr>"

section \<open>Properties of the polling predicate\<close>

lemma refresh_listing:
  assumes "get_response client w deploymentid = Inr whitelist"
  shows "whitelistCompletedRefreshFunc client deploymentid whitelistip w =
           ((case find (\<lambda>e. IP e = whitelistip) whitelist of
               Some e \<Rightarrow> Returns (Some (ID e), ''existing'', None)
             | None \<Rightarrow> Returns (None, [], None)),
            w\<lparr>calls := calls w @ [GetCall deploymentid]\<rparr>)"
  using assms
  by (simp add: whitelistCompletedRefreshFunc_def GetWhitelistForDeployment_def
      split: option.splits)

lemma refresh_error:
  assumes "get_response client w deploymentid = Inl (e # es)"
  shows "whitelistCompletedRefreshFunc client deploymentid whitelistip w =
           (Returns (None, [], Some (ApiError e)),
            w\<lparr>calls := calls w @ [GetCall deploymentid]\<rparr>)"
  using assms
  by (simp add: whitelistCompletedRefreshFunc_def GetWhitelistForDeployment_def)

lemma refresh_panic:
  assumes "get_response client w deploymentid = Inl []"
  shows "whitelistCompletedRefreshFunc client deploymentid whitelistip w =
           (Panics IndexOutOfRange, w\<lparr>calls := calls w @ [GetCall deploymentid]\<rparr>)"
  using assms
  by (simp add: whitelistCompletedRefreshFunc_def GetWhitelistForDeployment_def)

lemma refresh_world:
  "snd (whitelistCompletedRefreshFunc client deploymentid whitelistip w) =
     w\<lparr>calls := calls w @ [GetCall deploymentid]\<rparr>"
  by (simp add: whitelistCompletedRefreshFunc_def GetWhitelistForDeployment_def
      split: sum.splits list.splits option.splits)

lemma find_listed:
  "(\<exists>e. find P xs = Some e) \<longleftrightarrow> (\<exists>e\<in>set xs. P e)"
  by (induction xs) auto

lemma find_unlisted:
  "find P xs = None \<longleftrightarrow> (\<forall>e\<in>set xs. \<not> P e)"
  by (induction xs) auto

text \<open>
  C2. For a listing returned by the read endpoint, one invocation of the polling
  predicate reports the state \<^verbatim>\<open>existing\<close> with an identifier exactly when some entry
  of the listing has the target IP, and the identifier is that of the first such entry;
  it reports the empty state with no value exactly when no entry has the target IP.
\<close>

theorem refresh_settled_iff_listed:
  assumes "get_response client w deploymentid = Inr whitelist"
  shows "((\<exists>e\<in>set whitelist. IP e = whitelistip) \<longleftrightarrow>
            (\<exists>i. fst (whitelistCompletedRefreshFunc client deploymentid whitelistip w) =
                   Returns (Some i, ''existing'', None)))
       \<and> ((\<forall>e\<in>set whitelist. IP e \<noteq> whitelistip) \<longleftrightarrow>
            fst (whitelistCompletedRefreshFunc client deploymentid whitelistip w) =
              Returns (None, [], None))
       \<and> (\<forall>e. find (\<lambda>e. IP e = whitelistip) whitelist = Some e \<longrightarrow>
            fst (whitelistCompletedRefreshFunc client deploymentid whitelistip w) =
              Returns (Some (ID e), ''existing'', None))"
proof (cases "find (\<lambda>e. IP e = whitelistip) whitelist")
  case None
  then have "\<forall>e\<in>set whitelist. IP e \<noteq> whitelistip"
    by (simp add: find_unlisted)
  with None show ?thesis
    by (simp add: refresh_listing [OF assms])
next
  case (Some e)
  then have "\<exists>e\<in>set whitelist. IP e = whitelistip"
    using find_listed [of "\<lambda>e. IP e = whitelistip" whitelist] by simp
  with Some show ?thesis
    by (auto simp add: refresh_listing [OF assms])
qed

theorem refresh_settled_iff_listed_witness:
  "get_response (steady_client [entry_a, entry_b]) world0 ''d1'' = Inr [entry_a, entry_b]
   \<and> find (\<lambda>e. IP e = ''10.0.0.0/24'') [entry_a, entry_b] = Some entry_b
   \<and> fst (whitelistCompletedRefreshFunc (steady_client [entry_a, entry_b])
            ''d1'' ''10.0.0.0/24'' world0) = Returns (Some ''b'', ''existing'', None)
   \<and> fst (whitelistCompletedRefreshFunc (steady_client [entry_a, entry_b])
            ''d1'' ''8.8.8.8/32'' world0) = Returns (None, [], None)"
proof -
  have h: "get_response (steady_client [entry_a, entry_b]) world0 ''d1'' =
             Inr [entry_a, entry_b]"
    by (simp add: steady_client_def)
  have f: "find (\<lambda>e. IP e = ''10.0.0.0/24'') [entry_a, entry_b] = Some entry_b"
    by (simp add: entry_a_def entry_b_def)
  have "fst (whitelistCompletedRefreshFunc (steady_client [entry_a, entry_b])
            ''d1'' ''10.0.0.0/24'' world0) = Returns (Some (ID entry_b), ''existing'', None)"
    using refresh_settled_iff_listed [OF h, of "''10.0.0.0/24''"] f by blast
  moreover have "\<forall>e\<in>set [entry_a, entry_b]. IP e \<noteq> ''8.8.8.8/32''"
    by (simp add: entry_a_def entry_b_def)
  then have "fst (whitelistCompletedRefreshFunc (steady_client [entry_a, entry_b])
            ''d1'' ''8.8.8.8/32'' world0) = Returns (None, [], None)"
    using refresh_settled_iff_listed [OF h, of "''8.8.8.8/32''"] by blast
  ultimately show ?thesis
    using h f by (simp add: entry_b_def)
qed

text \<open>
  C9. The polling predicate reads nothing but the answer of the read endpoint: invoked
  again in any later world \<open>w'\<close> (after any number of invocations) in which the endpoint
  answers as it did in \<open>w\<close>, it returns the same state, value and error as the first
  invocation. The reconciler therefore classifies both results alike.
\<close>

theorem refresh_idempotent:
  assumes "get_response client w' deploymentid = get_response client w deploymentid"
  shows "fst (whitelistCompletedRefreshFunc client deploymentid whitelistip w') =
           fst (whitelistCompletedRefreshFunc client deploymentid whitelistip w)"
  using assms
  by (simp add: whitelistCompletedRefreshFunc_def GetWhitelistForDeployment_def
      split: sum.splits list.splits option.splits)

theorem refresh_idempotent_witness:
  "get_response (steady_client [entry_a, entry_b])
     (snd (whitelistCompletedRefreshFunc (steady_client [entry_a, entry_b]) ''d1'' ''10.0.0.0/24''
        (snd (whitelistCompletedRefreshFunc (steady_client [entry_a, entry_b]) ''d1''
           ''10.0.0.0/24'' world0)))) ''d1'' =
   get_response (steady_client [entry_a, entry_b]) world0 ''d1''
   \<and> fst (whitelistCompletedRefreshFunc (steady_client [entry_a, entry_b]) ''d1'' ''10.0.0.0/24''
        (snd (whitelistCompletedRefreshFunc (steady_client [entry_a, entry_b]) ''d1''
           ''10.0.0.0/24''
           (snd (whitelistCompletedRefreshFunc (steady_client [entry_a, entry_b]) ''d1''
              ''10.0.0.0/24'' world0))))) =
     fst (whitelistCompletedRefreshFunc (steady_client [entry_a, entry_b]) ''d1'' ''10.0.0.0/24''
        world0)"
proof -
  let ?R = "whitelistCompletedRefreshFunc (steady_client [entry_a, entry_b]) ''d1'' ''10.0.0.0/24''"
  have h: "get_response (steady_client [entry_a, entry_b]) (snd (?R (snd (?R world0)))) ''d1'' =
           get_response (steady_client [entry_a, entry_b]) world0 ''d1''"
    by (simp add: steady_client_def)
  from h refresh_idempotent [OF h, of "''10.0.0.0/24''"] show ?thesis by simp
qed

section \<open>Properties of the reconciler\<close>

lemma clock_sleep: "clock w + d \<le> clock (sleep d w)"
  by (simp add: sleep_def split: list.splits)

lemma calls_sleep: "calls (sleep d w) = calls w"
  by (simp add: sleep_def split: list.splits)

text \<open>The ways one round of the loop can go.\<close>

lemma poll_pending_step:
  assumes "Refresh conf w = (Returns (res, currentState, None), w1)"
    and "classify conf res currentState = pending"
  shows "poll conf start w =
           (if Timeout conf < clock (sleep (MinTimeout conf) w1) - start
            then Some (Returns (None, Some TimeoutError), sleep (MinTimeout conf) w1)
            else poll conf start (sleep (MinTimeout conf) w1))"
  using assms by (subst poll.simps) (simp add: Let_def)

lemma poll_settled_step:
  assumes "Refresh conf w = (Returns (res, currentState, None), w1)"
    and "classify conf res currentState = settled"
  shows "poll conf start w = Some (Returns (res, None), w1)"
  using assms by (subst poll.simps) simp

lemma poll_panic_step:
  assumes "Refresh conf w = (Panics p, w1)"
  shows "poll conf start w = Some (Panics p, w1)"
  using assms by (subst poll.simps) simp

lemma poll_error_step:
  assumes "Refresh conf w = (Returns (res, currentState, Some err), w1)"
  shows "poll conf start w = Some (Returns (None, Some err), w1)"
  using assms by (subst poll.simps) simp

lemma conf_delete [simp]:
  "Refresh (deleteStateChangeConf client deploymentID ip) =
     whitelistCompletedRefreshFunc client deploymentID ip"
  "Timeout (deleteStateChangeConf client deploymentID ip) = 5 * Minute"
  "Delay (deleteStateChangeConf client deploymentID ip) = 10 * Second"
  "MinTimeout (deleteStateChangeConf client deploymentID ip) = 3 * Second"
  by (simp_all add: deleteStateChangeConf_def)

lemma conf_create [simp]:
  "Refresh (createStateChangeConf client deploymentID ip) =
     whitelistCompletedRefreshFunc client deploymentID ip"
  "Timeout (createStateChangeConf client deploymentID ip) = 5 * Minute"
  "Delay (createStateChangeConf client deploymentID ip) = 10 * Second"
  "MinTimeout (createStateChangeConf client deploymentID ip) = 3 * Second"
  by (simp_all add: createStateChangeConf_def)

lemma classify_delete:
  "classify (deleteStateChangeConf client deploymentID ip) res currentState =
     (if res = None then settled else pending)"
  by (simp add: classify_def deleteStateChangeConf_def)

lemma classify_create:
  "classify (createStateChangeConf client deploymentID ip) res currentState =
     (if res \<noteq> None \<and> currentState = ''existing'' then settled else pending)"
  by (simp add: classify_def createStateChangeConf_def)

text \<open>
  C4. Whichever invocation of the predicate it is (the loop is in any world \<open>w\<close>, with
  any start time): when the read endpoint answers that invocation with an error, the
  reconciler returns the first error of the answer as its result, and the world it
  returns in is \<open>w\<close> with that one read added: no sleep and no further invocation.
\<close>

theorem poll_read_error_aborts:
  assumes "Refresh conf = whitelistCompletedRefreshFunc client deploymentid whitelistip"
    and "get_response client w deploymentid = Inl (e # es)"
  shows "poll conf start w =
           Some (Returns (None, Some (ApiError e)),
                 w\<lparr>calls := calls w @ [GetCall deploymentid]\<rparr>)"
  using assms by (simp add: poll_error_step refresh_error)

theorem poll_read_error_aborts_witness:
  "Refresh (createStateChangeConf (flaky_client 1 [entry_a]) ''d1'' ''10.0.0.0/24'') =
     whitelistCompletedRefreshFunc (flaky_client 1 [entry_a]) ''d1'' ''10.0.0.0/24''
   \<and> get_response (flaky_client 1 [entry_a])
        \<lparr>clock = 13 * Second, calls = [GetCall ''d1''], oversleep = []\<rparr> ''d1'' =
      Inl [''unavailable'']
   \<and> poll (createStateChangeConf (flaky_client 1 [entry_a]) ''d1'' ''10.0.0.0/24'') 0
        \<lparr>clock = 13 * Second, calls = [GetCall ''d1''], oversleep = []\<rparr> =
      Some (Returns (None, Some (ApiError ''unavailable'')),
            \<lparr>clock = 13 * Second, calls = [GetCall ''d1'', GetCall ''d1''], oversleep = []\<rparr>)"
proof -
  have r: "Refresh (createStateChangeConf (flaky_client 1 [entry_a]) ''d1'' ''10.0.0.0/24'') =
     whitelistCompletedRefreshFunc (flaky_client 1 [entry_a]) ''d1'' ''10.0.0.0/24''"
    by simp
  have g: "get_response (flaky_client 1 [entry_a])
        \<lparr>clock = 13 * Second, calls = [GetCall ''d1''], oversleep = []\<rparr> ''d1'' =
      Inl [''unavailable'']"
    by (simp add: flaky_client_def)
  from r g poll_read_error_aborts [OF r g, of 0] show ?thesis by simp
qed

text \<open>One round of the delete path's poll.\<close>

lemma delete_poll_round:
  assumes "get_response client w deploymentID = Inr whitelist"
  shows "poll (deleteStateChangeConf client deploymentID ip) start w =
           (if \<forall>e\<in>set whitelist. IP e \<noteq> ip
            then Some (Returns (None, None), w\<lparr>calls := calls w @ [GetCall deploymentID]\<rparr>)
            else if 5 * Minute <
                clock (sleep (3 * Second) (w\<lparr>calls := calls w @ [GetCall deploymentID]\<rparr>)) - start
            then Some (Returns (None, Some TimeoutError),
                   sleep (3 * Second) (w\<lparr>calls := calls w @ [GetCall deploymentID]\<rparr>))
            else poll (deleteStateChangeConf client deploymentID ip) start
                   (sleep (3 * Second) (w\<lparr>calls := calls w @ [GetCall deploymentID]\<rparr>)))"
proof (cases "find (\<lambda>e. IP e = ip) whitelist")
  case None
  then have a: "\<forall>e\<in>set whitelist. IP e \<noteq> ip" by (simp add: find_unlisted)
  have "poll (deleteStateChangeConf client deploymentID ip) start w =
          Some (Returns (None, None), w\<lparr>calls := calls w @ [GetCall deploymentID]\<rparr>)"
    by (rule poll_settled_step [where currentState = "[]"])
       (simp_all add: refresh_listing [OF assms] None classify_delete)
  with a show ?thesis by simp
next
  case (Some e)
  then have a: "\<not> (\<forall>e\<in>set whitelist. IP e \<noteq> ip)"
    using find_unlisted [of "\<lambda>e. IP e = ip" whitelist] by simp
  have step: "poll (deleteStateChangeConf client deploymentID ip) start w =
          (if Timeout (deleteStateChangeConf client deploymentID ip) <
                clock (sleep (MinTimeout (deleteStateChangeConf client deploymentID ip))
                  (w\<lparr>calls := calls w @ [GetCall deploymentID]\<rparr>)) - start
            then Some (Returns (None, Some TimeoutError),
                   sleep (MinTimeout (deleteStateChangeConf client deploymentID ip))
                     (w\<lparr>calls := calls w @ [GetCall deploymentID]\<rparr>))
            else poll (deleteStateChangeConf client deploymentID ip) start
                   (sleep (MinTimeout (deleteStateChangeConf client deploymentID ip))
                      (w\<lparr>calls := calls w @ [GetCall deploymentID]\<rparr>)))"
    by (rule poll_pending_step [where res = "Some (ID e)" and currentState = "''existing''"])
       (simp_all add: refresh_listing [OF assms] Some classify_delete)
  show ?thesis
    unfolding if_not_P [OF a] using step by simp
qed

text \<open>The clock never runs backwards during a poll.\<close>

lemma poll_clock:
  assumes refresh: "Refresh conf = whitelistCompletedRefreshFunc client deploymentid whitelistip"
    and pos: "0 < MinTimeout conf"
    and run: "poll conf start w = Some (r, w')"
  shows "clock w \<le> clock w'"
  using run
proof (induction "start + Timeout conf + 1 - clock w" arbitrary: w rule: less_induct)
  case less
  let ?w1 = "w\<lparr>calls := calls w @ [GetCall deploymentid]\<rparr>"
  let ?w2 = "sleep (MinTimeout conf) ?w1"
  obtain rr where rr: "Refresh conf w = (rr, ?w1)"
    using refresh_world [of client deploymentid whitelistip w] refresh
    by (cases "Refresh conf w") simp
  have c2: "clock w + MinTimeout conf \<le> clock ?w2"
    using clock_sleep [of ?w1 "MinTimeout conf"] by simp
  show ?case
  proof (cases rr)
    case (Panics p)
    with rr less.prems show ?thesis by (auto simp add: poll_panic_step)
  next
    case (Returns t)
    obtain res currentState err where t: "t = (res, currentState, err)" by (cases t)
    show ?thesis
    proof (cases err)
      case (Some e)
      with rr Returns t less.prems show ?thesis by (auto simp add: poll_error_step)
    next
      case None
      with rr Returns t have r': "Refresh conf w = (Returns (res, currentState, None), ?w1)"
        by simp
      show ?thesis
      proof (cases "classify conf res currentState")
        case settled
        with r' less.prems show ?thesis by (auto simp add: poll_settled_step)
      next
        case pending
        note step = poll_pending_step [OF r' pending, of start]
        show ?thesis
        proof (cases "Timeout conf < clock ?w2 - start")
          case True
          with step less.prems have "w' = ?w2" by simp
          with c2 show ?thesis by simp
        next
          case False
          with step less.prems have next_run: "poll conf start ?w2 = Some (r, w')" by simp
          from c2 pos have "clock w < clock ?w2" by simp
          with False have "start + Timeout conf + 1 - clock ?w2 < start + Timeout conf + 1 - clock w"
            by simp
          from less.hyps [OF this next_run] c2 show ?thesis by simp
        qed
      qed
    qed
  qed
qed

text \<open>A pending round does not return in the world of its own read.\<close>

lemma poll_round_world:
  assumes refresh: "Refresh conf = whitelistCompletedRefreshFunc client deploymentid whitelistip"
    and pos: "0 < MinTimeout conf"
    and listing: "get_response client w deploymentid = Inr whitelist"
    and pend: "classify conf
                 (case find (\<lambda>e. IP e = whitelistip) whitelist of
                    Some e \<Rightarrow> Some (ID e) | None \<Rightarrow> None)
                 (case find (\<lambda>e. IP e = whitelistip) whitelist of
                    Some e \<Rightarrow> ''existing'' | None \<Rightarrow> []) = pending"
  shows "poll conf start w \<noteq> Some (r, w\<lparr>calls := calls w @ [GetCall deploymentid]\<rparr>)"
proof
  let ?w1 = "w\<lparr>calls := calls w @ [GetCall deploymentid]\<rparr>"
  let ?w2 = "sleep (MinTimeout conf) ?w1"
  assume run: "poll conf start w = Some (r, ?w1)"
  have c2: "clock ?w1 + MinTimeout conf \<le> clock ?w2" by (rule clock_sleep)
  have r': "Refresh conf w =
      (Returns ((case find (\<lambda>e. IP e = whitelistip) whitelist of
                    Some e \<Rightarrow> Some (ID e) | None \<Rightarrow> None),
                (case find (\<lambda>e. IP e = whitelistip) whitelist of
                    Some e \<Rightarrow> ''existing'' | None \<Rightarrow> []), None), ?w1)"
    by (simp add: refresh refresh_listing [OF listing] split: option.splits)
  note step = poll_pending_step [OF r' pend, of start]
  show False
  proof (cases "Timeout conf < clock ?w2 - start")
    case True
    with step run have "?w2 = ?w1" by simp
    then have "clock ?w2 = clock ?w1" by simp
    with c2 pos show False by simp
  next
    case False
    with step run have "poll conf start ?w2 = Some (r, ?w1)" by simp
    from poll_clock [OF refresh pos this] c2 pos show False by simp
  qed
qed

text \<open>
  C3. On the delete path, once the delete write is accepted, delete runs the poll of its
  configuration with the predicate keyed by the \<^verbatim>\<open>ip\<close> attribute of the resource, not by
  its identifier, and returns what that poll returns. A round of this poll, for a listing
  returned by the read endpoint, returns in that round exactly when no entry of the
  listing has that IP, and then with success (the terminal absent state) and the one read
  added to the calls. When some entry has that IP, whatever its identifier, the round is
  pending: the loop sleeps the minimum interval and then gives up with the timeout error
  or polls again. So delete reports success at the time of its first poll exactly when
  the first listing holds no entry with the IP of the resource.
\<close>

theorem delete_poll_settles_iff_absent:
  assumes accepted: "delete_response client w (Get d ''deployment_id'') (Id' d) = None"
    and listing: "get_response client w' (Get d ''deployment_id'') = Inr whitelist"
  shows "resourceComposeWhitelistDelete client d w =
           (case poll (deleteStateChangeConf client (Get d ''deployment_id'') (Get d ''ip''))
                   (clock w)
                   (w\<lparr>calls := calls w @ [DeleteCall (Get d ''deployment_id'') (Id' d)],
                      clock := clock w + 10 * Second\<rparr>) of
              None \<Rightarrow> None
            | Some (Panics p, w2) \<Rightarrow> Some (Panics p, d, w2)
            | Some (Returns (v, Some err), w2) \<Rightarrow> Some (Returns (Some err), d, w2)
            | Some (Returns (v, None), w2) \<Rightarrow> Some (Returns None, d, w2))
       \<and> ((\<exists>r. poll (deleteStateChangeConf client (Get d ''deployment_id'') (Get d ''ip''))
                  start w' =
                Some (r, w'\<lparr>calls := calls w' @ [GetCall (Get d ''deployment_id'')]\<rparr>))
            \<longleftrightarrow> (\<forall>e\<in>set whitelist. IP e \<noteq> Get d ''ip''))
       \<and> ((\<forall>e\<in>set whitelist. IP e \<noteq> Get d ''ip'') \<longrightarrow>
            poll (deleteStateChangeConf client (Get d ''deployment_id'') (Get d ''ip''))
              start w' =
            Some (Returns (None, None),
                  w'\<lparr>calls := calls w' @ [GetCall (Get d ''deployment_id'')]\<rparr>))
       \<and> ((\<exists>e\<in>set whitelist. IP e = Get d ''ip'') \<longrightarrow>
            poll (deleteStateChangeConf client (Get d ''deployment_id'') (Get d ''ip''))
              start w' =
              (if 5 * Minute <
                  clock (sleep (3 * Second)
                    (w'\<lparr>calls := calls w' @ [GetCall (Get d ''deployment_id'')]\<rparr>)) - start
               then Some (Returns (None, Some TimeoutError),
                      sleep (3 * Second)
                        (w'\<lparr>calls := calls w' @ [GetCall (Get d ''deployment_id'')]\<rparr>))
               else poll (deleteStateChangeConf client (Get d ''deployment_id'') (Get d ''ip''))
                      start
                      (sleep (3 * Second)
                        (w'\<lparr>calls := calls w' @ [GetCall (Get d ''deployment_id'')]\<rparr>))))
       \<and> (w' = w\<lparr>calls := calls w @ [DeleteCall (Get d ''deployment_id'') (Id' d)],
                   clock := clock w + 10 * Second\<rparr> \<longrightarrow>
            ((\<exists>w2. resourceComposeWhitelistDelete client d w = Some (Returns None, d, w2)
                   \<and> clock w2 = clock w + 10 * Second)
             \<longleftrightarrow> (\<forall>e\<in>set whitelist. IP e \<noteq> Get d ''ip'')))"
  (is "?link \<and> ?iff \<and> ?absent \<and> ?present \<and> ?entry")
proof -
  let ?dep = "Get d ''deployment_id''"
  let ?ip = "Get d ''ip''"
  let ?conf = "deleteStateChangeConf client ?dep ?ip"
  let ?w0 = "w\<lparr>calls := calls w @ [DeleteCall ?dep (Id' d)], clock := clock w + 10 * Second\<rparr>"
  let ?w1 = "w'\<lparr>calls := calls w' @ [GetCall ?dep]\<rparr>"
  have link: ?link
    using accepted
    by (simp add: resourceComposeWhitelistDelete_def DeleteWhitelistForDeployment_def
        WaitForState_def Let_def)
  note round = delete_poll_round [OF listing, of ?ip start]
  have absent: ?absent using round by simp
  have present: ?present
  proof
    assume "\<exists>e\<in>set whitelist. IP e = ?ip"
    then have "\<not> (\<forall>e\<in>set whitelist. IP e \<noteq> ?ip)" by simp
    from round [unfolded if_not_P [OF this]] show "poll ?conf start w' =
        (if 5 * Minute < clock (sleep (3 * Second) ?w1) - start
         then Some (Returns (None, Some TimeoutError), sleep (3 * Second) ?w1)
         else poll ?conf start (sleep (3 * Second) ?w1))" .
  qed
  have no_return: "poll ?conf s w' \<noteq> Some (r, ?w1)"
    if "\<exists>e\<in>set whitelist. IP e = ?ip" for s r
  proof -
    from that obtain e where "find (\<lambda>e. IP e = ?ip) whitelist = Some e"
      using find_listed [of "\<lambda>e. IP e = ?ip" whitelist] by blast
    then show ?thesis
      by (intro poll_round_world [OF _ _ listing, of _ ?ip])
         (simp_all add: classify_delete Second_def)
  qed
  have iff: ?iff
  proof (cases "\<forall>e\<in>set whitelist. IP e \<noteq> ?ip")
    case True
    with absent show ?thesis by simp
  next
    case False
    with no_return [of start] show ?thesis by auto
  qed
  have entry: ?entry
  proof
    assume w': "w' = ?w0"
    show "(\<exists>w2. resourceComposeWhitelistDelete client d w = Some (Returns None, d, w2)
                   \<and> clock w2 = clock w + 10 * Second)
             \<longleftrightarrow> (\<forall>e\<in>set whitelist. IP e \<noteq> ?ip)"
    proof (cases "\<forall>e\<in>set whitelist. IP e \<noteq> ?ip")
      case True
      from delete_poll_round [OF listing, of ?ip "clock w"] True w'
      have "poll ?conf (clock w) ?w0 = Some (Returns (None, None), ?w1)" by simp
      with link have "resourceComposeWhitelistDelete client d w = Some (Returns None, d, ?w1)"
        by simp
      moreover have "clock ?w1 = clock w + 10 * Second" using w' by simp
      ultimately show ?thesis using True by blast
    next
      case False
      then have ex: "\<exists>e\<in>set whitelist. IP e = ?ip" by simp
      have "\<not> (\<exists>w2. resourceComposeWhitelistDelete client d w = Some (Returns None, d, w2)
                   \<and> clock w2 = clock w + 10 * Second)"
      proof
        assume "\<exists>w2. resourceComposeWhitelistDelete client d w = Some (Returns None, d, w2)
                   \<and> clock w2 = clock w + 10 * Second"
        then obtain w2 where del: "resourceComposeWhitelistDelete client d w =
            Some (Returns None, d, w2)" and c: "clock w2 = clock w + 10 * Second" by blast
        from del link obtain v where run: "poll ?conf (clock w) ?w0 = Some (Returns (v, None), w2)"
          by (auto split: option.splits go.splits prod.splits)
        let ?w2 = "sleep (3 * Second) ?w1"
        from delete_poll_round [OF listing, of ?ip "clock w"] False w' run
        have cont: "(if 5 * Minute < clock ?w2 - clock w
               then Some (Returns (None, Some TimeoutError), ?w2)
               else poll ?conf (clock w) ?w2) = Some (Returns (v, None), w2)"
          by simp
        then have next_run: "poll ?conf (clock w) ?w2 = Some (Returns (v, None), w2)"
          by (simp split: if_splits)
        have "clock ?w2 \<le> clock w2"
          by (rule poll_clock [OF _ _ next_run, of client ?dep ?ip]) (simp_all add: Second_def)
        moreover have "clock ?w1 + 3 * Second \<le> clock ?w2" by (rule clock_sleep)
        moreover have "clock ?w1 = clock w + 10 * Second" using w' by simp
        ultimately show False using c by (simp add: Second_def)
      qed
      with False show ?thesis by blast
    qed
  qed
  from link iff absent present entry show ?thesis by blast
qed

theorem delete_poll_settles_iff_absent_witness:
  "delete_response (steady_client [entry_b]) world0
       (Get (SetId data0 ''a'') ''deployment_id'') (Id' (SetId data0 ''a'')) = None
   \<and> get_response (steady_client [entry_b])
        \<lparr>clock = 10 * Second, calls = [DeleteCall ''d1'' ''a''], oversleep = []\<rparr>
        (Get (SetId data0 ''a'') ''deployment_id'') = Inr [entry_b]
   \<and> IP entry_b = Get (SetId data0 ''a'') ''ip''
   \<and> ID entry_b \<noteq> Id' (SetId data0 ''a'')
   \<and> \<not> (\<exists>w2. resourceComposeWhitelistDelete (steady_client [entry_b]) (SetId data0 ''a'')
                  world0 = Some (Returns None, SetId data0 ''a'', w2)
               \<and> clock w2 = clock world0 + 10 * Second)
   \<and> poll (deleteStateChangeConf (steady_client [entry_b]) ''d1'' ''10.0.0.0/24'') 0
        \<lparr>clock = 10 * Second, calls = [DeleteCall ''d1'' ''a''], oversleep = []\<rparr> =
      poll (deleteStateChangeConf (steady_client [entry_b]) ''d1'' ''10.0.0.0/24'') 0
        \<lparr>clock = 13 * Second, calls = [DeleteCall ''d1'' ''a'', GetCall ''d1''], oversleep = []\<rparr>
   \<and> delete_response (steady_client [entry_a]) world0
       (Get (SetId data0 ''b'') ''deployment_id'') (Id' (SetId data0 ''b'')) = None
   \<and> get_response (steady_client [entry_a])
        \<lparr>clock = 10 * Second, calls = [DeleteCall ''d1'' ''b''], oversleep = []\<rparr>
        (Get (SetId data0 ''b'') ''deployment_id'') = Inr [entry_a]
   \<and> resourceComposeWhitelistDelete (steady_client [entry_a]) (SetId data0 ''b'') world0 =
        Some (Returns None, SetId data0 ''b'',
          \<lparr>clock = 10 * Second, calls = [DeleteCall ''d1'' ''b'', GetCall ''d1''],
           oversleep = []\<rparr>)"
proof -
  let ?wa = "\<lparr>clock = 10 * Second, calls = [DeleteCall ''d1'' ''a''], oversleep = []\<rparr>"
  let ?wb = "\<lparr>clock = 10 * Second, calls = [DeleteCall ''d1'' ''b''], oversleep = []\<rparr>"
  have dep: "Get (SetId data0 i) ''deployment_id'' = ''d1''"
    and ip: "Get (SetId data0 i) ''ip'' = ''10.0.0.0/24''"
    and dep0: "Get data0 ''deployment_id'' = ''d1''"
    and ip0: "Get data0 ''ip'' = ''10.0.0.0/24''" for i
    by (simp_all add: Get_def SetId_def data0_def)
  have a: "delete_response (steady_client [entry_b]) world0
       (Get (SetId data0 ''a'') ''deployment_id'') (Id' (SetId data0 ''a'')) = None"
    and a': "delete_response (steady_client [entry_a]) world0
       (Get (SetId data0 ''b'') ''deployment_id'') (Id' (SetId data0 ''b'')) = None"
    by (simp_all add: steady_client_def)
  have g: "get_response (steady_client [entry_b]) ?wa
        (Get (SetId data0 ''a'') ''deployment_id'') = Inr [entry_b]"
    and g': "get_response (steady_client [entry_a]) ?wb
        (Get (SetId data0 ''b'') ''deployment_id'') = Inr [entry_a]"
    by (simp_all add: steady_client_def)
  have e: "IP entry_b = Get (SetId data0 ''a'') ''ip''" "ID entry_b \<noteq> Id' (SetId data0 ''a'')"
    by (simp_all add: entry_b_def Get_def Id'_def SetId_def data0_def)
  have wa: "?wa = world0\<lparr>calls := calls world0 @
                [DeleteCall (Get (SetId data0 ''a'') ''deployment_id'') (Id' (SetId data0 ''a''))],
              clock := clock world0 + 10 * Second\<rparr>"
    and wb: "?wb = world0\<lparr>calls := calls world0 @
                [DeleteCall (Get (SetId data0 ''b'') ''deployment_id'') (Id' (SetId data0 ''b''))],
              clock := clock world0 + 10 * Second\<rparr>"
    by (simp_all add: world0_def Get_def Id'_def SetId_def data0_def)
  note t = delete_poll_settles_iff_absent [OF a g, of 0]
  note t' = delete_poll_settles_iff_absent [OF a' g', of 0]
  have present: "\<exists>e\<in>set [entry_b]. IP e = Get (SetId data0 ''a'') ''ip''"
    using e by simp
  have absent: "\<forall>e\<in>set [entry_a]. IP e \<noteq> Get (SetId data0 ''b'') ''ip''"
    by (simp add: entry_a_def ip ip0)
  from t present wa
  have n: "\<not> (\<exists>w2. resourceComposeWhitelistDelete (steady_client [entry_b]) (SetId data0 ''a'')
                  world0 = Some (Returns None, SetId data0 ''a'', w2)
               \<and> clock w2 = clock world0 + 10 * Second)"
    by blast
  from t present
  have "poll (deleteStateChangeConf (steady_client [entry_b])
               (Get (SetId data0 ''a'') ''deployment_id'') (Get (SetId data0 ''a'') ''ip'')) 0 ?wa =
        (if 5 * Minute <
              clock (sleep (3 * Second)
                (?wa\<lparr>calls := calls ?wa @ [GetCall (Get (SetId data0 ''a'') ''deployment_id'')]\<rparr>)) - 0
         then Some (Returns (None, Some TimeoutError),
                sleep (3 * Second)
                  (?wa\<lparr>calls := calls ?wa @ [GetCall (Get (SetId data0 ''a'') ''deployment_id'')]\<rparr>))
         else poll (deleteStateChangeConf (steady_client [entry_b])
                (Get (SetId data0 ''a'') ''deployment_id'') (Get (SetId data0 ''a'') ''ip'')) 0
                (sleep (3 * Second)
                  (?wa\<lparr>calls := calls ?wa @ [GetCall (Get (SetId data0 ''a'') ''deployment_id'')]\<rparr>)))"
    by blast
  then have p: "poll (deleteStateChangeConf (steady_client [entry_b]) ''d1'' ''10.0.0.0/24'') 0 ?wa =
      poll (deleteStateChangeConf (steady_client [entry_b]) ''d1'' ''10.0.0.0/24'') 0
        \<lparr>clock = 13 * Second, calls = [DeleteCall ''d1'' ''a'', GetCall ''d1''], oversleep = []\<rparr>"
    by (simp add: dep ip dep0 ip0 sleep_def Second_def Minute_def)
  from t' absent
  have "poll (deleteStateChangeConf (steady_client [entry_a])
               (Get (SetId data0 ''b'') ''deployment_id'') (Get (SetId data0 ''b'') ''ip'')) 0 ?wb =
        Some (Returns (None, None),
              ?wb\<lparr>calls := calls ?wb @ [GetCall (Get (SetId data0 ''b'') ''deployment_id'')]\<rparr>)"
    by blast
  moreover from t' have "resourceComposeWhitelistDelete (steady_client [entry_a]) (SetId data0 ''b'') world0 =
      (case poll (deleteStateChangeConf (steady_client [entry_a])
               (Get (SetId data0 ''b'') ''deployment_id'') (Get (SetId data0 ''b'') ''ip''))
              (clock world0)
              (world0\<lparr>calls := calls world0 @
                [DeleteCall (Get (SetId data0 ''b'') ''deployment_id'') (Id' (SetId data0 ''b''))],
              clock := clock world0 + 10 * Second\<rparr>) of
              None \<Rightarrow> None
            | Some (Panics p, w2) \<Rightarrow> Some (Panics p, SetId data0 ''b'', w2)
            | Some (Returns (v, Some err), w2) \<Rightarrow> Some (Returns (Some err), SetId data0 ''b'', w2)
            | Some (Returns (v, None), w2) \<Rightarrow> Some (Returns None, SetId data0 ''b'', w2))"
    by blast
  ultimately have s: "resourceComposeWhitelistDelete (steady_client [entry_a]) (SetId data0 ''b'') world0 =
        Some (Returns None, SetId data0 ''b'',
          \<lparr>clock = 10 * Second, calls = [DeleteCall ''d1'' ''b'', GetCall ''d1''],
           oversleep = []\<rparr>)"
    unfolding wb [symmetric] by (simp add: world0_def dep dep0)
  from a g e n p a' g' s show ?thesis by blast
qed

section \<open>Runs of the reconciler\<close>

lemma poll_terminates:
  assumes pos: "0 < MinTimeout conf"
    and mono: "\<And>w r w1. Refresh conf w = (r, w1) \<Longrightarrow> clock w \<le> clock w1"
  shows "\<exists>r. poll conf start w = Some r"
proof (induction "start + Timeout conf + 1 - clock w" arbitrary: w rule: less_induct)
  case less
  obtain r w1 where r: "Refresh conf w = (r, w1)" by (cases "Refresh conf w")
  show ?case
  proof (cases r)
    case (Panics p)
    with r show ?thesis by (simp add: poll_panic_step)
  next
    case (Returns t)
    obtain res currentState err where t: "t = (res, currentState, err)" by (cases t)
    show ?thesis
    proof (cases err)
      case (Some e)
      with r Returns t show ?thesis by (simp add: poll_error_step)
    next
      case None
      with r Returns t have r': "Refresh conf w = (Returns (res, currentState, None), w1)"
        by simp
      show ?thesis
      proof (cases "classify conf res currentState")
        case settled
        with r' show ?thesis by (simp add: poll_settled_step)
      next
        case pending
        let ?w2 = "sleep (MinTimeout conf) w1"
        show ?thesis
        proof (cases "Timeout conf < clock ?w2 - start")
          case True
          then show ?thesis by (simp add: poll_pending_step [OF r' pending])
        next
          case False
          have "clock w \<le> clock w1" using mono [OF r] .
          with clock_sleep [of w1 "MinTimeout conf"] pos have "clock w < clock ?w2" by simp
          with False have "start + Timeout conf + 1 - clock ?w2 < start + Timeout conf + 1 - clock w"
            by simp
          from less [OF this] False show ?thesis
            by (simp add: poll_pending_step [OF r' pending])
        qed
      qed
    qed
  qed
qed

lemma refresh_clock:
  "whitelistCompletedRefreshFunc client deploymentid whitelistip w = (r, w1) \<Longrightarrow>
     clock w \<le> clock w1"
  using refresh_world [of client deploymentid whitelistip w] by auto

text \<open>With a minimum interval of three seconds the loop ends: both entry points return.\<close>

lemma create_returns:
  "resourceComposeWhitelistCreate client d w \<noteq> None"
proof -
  let ?conf = "createStateChangeConf client (Get d ''deployment_id'') (Get d ''ip'')"
  obtain errs w1 where a: "AddWhitelistForDeployment client (Get d ''deployment_id'')
      \<lparr>ID = [], IP = Get d ''ip'', Description = Get d ''description''\<rparr> w = (errs, w1)"
    by (cases "AddWhitelistForDeployment client (Get d ''deployment_id'')
      \<lparr>ID = [], IP = Get d ''ip'', Description = Get d ''description''\<rparr> w")
  have "\<exists>r. WaitForState ?conf w1 = Some r"
    unfolding WaitForState_def
    by (rule poll_terminates) (simp_all add: Second_def refresh_clock)
  then obtain r w2 where p: "WaitForState ?conf w1 = Some (r, w2)"
    by (metis surj_pair)
  show ?thesis
    by (simp add: resourceComposeWhitelistCreate_def Let_def a p
        split: option.splits go.splits sum.splits prod.splits)
       (metis prod_cases3)
qed

lemma delete_returns:
  "resourceComposeWhitelistDelete client d w \<noteq> None"
proof -
  let ?conf = "deleteStateChangeConf client (Get d ''deployment_id'') (Get d ''ip'')"
  obtain errs w1 where a: "DeleteWhitelistForDeployment client (Get d ''deployment_id'')
      (Id' d) w = (errs, w1)"
    by (cases "DeleteWhitelistForDeployment client (Get d ''deployment_id'') (Id' d) w")
  have "\<exists>r. WaitForState ?conf w1 = Some r"
    unfolding WaitForState_def
    by (rule poll_terminates) (simp_all add: Second_def refresh_clock)
  then obtain r w2 where p: "WaitForState ?conf w1 = Some (r, w2)"
    by (metis surj_pair)
  show ?thesis
    by (simp add: resourceComposeWhitelistDelete_def Let_def a p
        split: option.splits go.splits sum.splits prod.splits)
qed

lemma create_poll_value:
  assumes "poll (createStateChangeConf client deploymentID ip) start w =
             Some (Returns (v, None), w')"
  shows "\<exists>ws whitelist e. get_response client ws deploymentID = Inr whitelist
           \<and> find (\<lambda>e. IP e = ip) whitelist = Some e
           \<and> v = Some (ID e)
           \<and> w' = ws\<lparr>calls := calls ws @ [GetCall deploymentID]\<rparr>"
  using assms
proof (induction "start + 5 * Minute + 1 - clock w" arbitrary: w rule: less_induct)
  case less
  let ?conf = "createStateChangeConf client deploymentID ip"
  let ?w1 = "w\<lparr>calls := calls w @ [GetCall deploymentID]\<rparr>"
  let ?w2 = "sleep (3 * Second) ?w1"
  note run = less.prems
  show ?case
  proof (cases "get_response client w deploymentID")
    case (Inl errs)
    show ?thesis
    proof (cases errs)
      case Nil
      with Inl have "poll ?conf start w = Some (Panics IndexOutOfRange, ?w1)"
        by (intro poll_panic_step) (simp add: refresh_panic)
      with run show ?thesis by simp
    next
      case (Cons e es)
      with Inl have "poll ?conf start w = Some (Returns (None, Some (ApiError e)), ?w1)"
        by (intro poll_error_step [where currentState = "[]"]) (simp add: refresh_error)
      with run show ?thesis by simp
    qed
  next
    case (Inr whitelist)
    show ?thesis
    proof (cases "find (\<lambda>e. IP e = ip) whitelist")
      case (Some e)
      have "poll ?conf start w = Some (Returns (Some (ID e), None), ?w1)"
        by (rule poll_settled_step [where currentState = "''existing''"])
           (simp_all add: refresh_listing [OF Inr] Some classify_create)
      with run have "v = Some (ID e)" "w' = ?w1" by simp_all
      with Inr Some show ?thesis by blast
    next
      case None
      have step: "poll ?conf start w =
          (if Timeout ?conf < clock (sleep (MinTimeout ?conf) ?w1) - start
           then Some (Returns (None, Some TimeoutError), sleep (MinTimeout ?conf) ?w1)
           else poll ?conf start (sleep (MinTimeout ?conf) ?w1))"
        by (rule poll_pending_step [where res = None and currentState = "[]"])
           (simp_all add: refresh_listing [OF Inr] None classify_create)
      show ?thesis
      proof (cases "5 * Minute < clock ?w2 - start")
        case True
        with step run show ?thesis by simp
      next
        case False
        with step run have next_run: "poll ?conf start ?w2 = Some (Returns (v, None), w')"
          by simp
        have "clock w + 3 * Second \<le> clock ?w2"
          using clock_sleep [of ?w1 "3 * Second"] by simp
        then have "clock w < clock ?w2" by (simp add: Second_def)
        with False have "start + 5 * Minute + 1 - clock ?w2 < start + 5 * Minute + 1 - clock w"
          by simp
        from less.hyps [OF this next_run] show ?thesis .
      qed
    qed
  qed
qed

lemma poll_never_settled:
  assumes never: "\<And>w'. clock w' \<le> start + Timeout conf \<Longrightarrow> \<exists>res currentState.
             Refresh conf w' = (Returns (res, currentState, None), w'\<lparr>calls := calls w' @ [c]\<rparr>)
             \<and> classify conf res currentState = pending"
    and pos: "0 < MinTimeout conf"
    and window: "clock w \<le> start + Timeout conf"
  shows "\<exists>n w'. poll conf start w = Some (Returns (None, Some TimeoutError), w')
           \<and> calls w' = calls w @ replicate n c \<and> 1 \<le> n
           \<and> n \<le> (start + Timeout conf - clock w) div MinTimeout conf + 1"
  using window
proof (induction "start + Timeout conf + 1 - clock w" arbitrary: w rule: less_induct)
  case less
  define w1 where "w1 = w\<lparr>calls := calls w @ [c]\<rparr>"
  define w2 where "w2 = sleep (MinTimeout conf) w1"
  from never [OF less.prems] obtain res currentState where
    r: "Refresh conf w = (Returns (res, currentState, None), w1)"
    and p: "classify conf res currentState = pending"
    unfolding w1_def by blast
  have step: "poll conf start w =
      (if Timeout conf < clock w2 - start
       then Some (Returns (None, Some TimeoutError), w2) else poll conf start w2)"
    unfolding w2_def by (rule poll_pending_step [OF r p])
  have c2: "clock w + MinTimeout conf \<le> clock w2"
    using clock_sleep [of w1 "MinTimeout conf"] by (simp add: w2_def w1_def)
  have k2: "calls w2 = calls w @ [c]"
    by (simp add: w2_def calls_sleep w1_def)
  show ?case
  proof (cases "Timeout conf < clock w2 - start")
    case True
    have "calls w2 = calls w @ replicate 1 c" using k2 by simp
    with True step show ?thesis
      by (intro exI [of _ 1] exI [of _ w2]) simp
  next
    case False
    then have le: "clock w2 \<le> start + Timeout conf" by simp
    with c2 pos have "start + Timeout conf + 1 - clock w2 < start + Timeout conf + 1 - clock w"
      by simp
    from less.hyps [OF this le] obtain n w' where
      run: "poll conf start w2 = Some (Returns (None, Some TimeoutError), w')"
      and k: "calls w' = calls w2 @ replicate n c"
      and n: "n \<le> (start + Timeout conf - clock w2) div MinTimeout conf + 1"
      by blast
    have "(start + Timeout conf - clock w2) div MinTimeout conf
            \<le> (start + Timeout conf - clock w - MinTimeout conf) div MinTimeout conf"
      using c2 by (intro div_le_mono) simp
    moreover have "MinTimeout conf \<le> start + Timeout conf - clock w"
      using c2 le by simp
    then have "(start + Timeout conf - clock w) div MinTimeout conf
             = Suc ((start + Timeout conf - clock w - MinTimeout conf) div MinTimeout conf)"
      using pos by (simp add: le_div_geq)
    ultimately have "Suc n \<le> (start + Timeout conf - clock w) div MinTimeout conf + 1"
      using n by simp
    moreover have "calls w' = calls w @ replicate (Suc n) c"
      using k k2 by simp
    ultimately show ?thesis
      using step False run by (intro exI [of _ "Suc n"] exI [of _ w']) simp
  qed
qed

text \<open>
  A poll whose predicate is pending whenever it is invoked within the timeout window
  ends in the timeout error, after at least one and at most timeout / minimum interval
  + 1 invocations.
\<close>

lemma WaitForState_never_settled:
  assumes never: "\<And>w'. clock w' \<le> clock w + Timeout conf \<Longrightarrow> \<exists>res currentState.
             Refresh conf w' = (Returns (res, currentState, None), w'\<lparr>calls := calls w' @ [c]\<rparr>)
             \<and> classify conf res currentState = pending"
    and pos: "0 < MinTimeout conf"
    and delay: "Delay conf \<le> Timeout conf"
  shows "\<exists>n w'. WaitForState conf w = Some (Returns (None, Some TimeoutError), w')
           \<and> calls w' = calls w @ replicate n c \<and> 1 \<le> n
           \<and> n \<le> Timeout conf div MinTimeout conf + 1"
proof -
  let ?w0 = "w\<lparr>clock := clock w + Delay conf\<rparr>"
  have window: "clock ?w0 \<le> clock w + Timeout conf"
    using delay by simp
  from poll_never_settled [of "clock w" conf c ?w0, OF never pos window]
  obtain n w' where run: "poll conf (clock w) ?w0 =
        Some (Returns (None, Some TimeoutError), w')"
    and k: "calls w' = calls ?w0 @ replicate n c" and n1: "1 \<le> n"
    and n: "n \<le> (clock w + Timeout conf - clock ?w0) div MinTimeout conf + 1"
    by blast
  have "(clock w + Timeout conf - clock ?w0) div MinTimeout conf
          \<le> Timeout conf div MinTimeout conf"
    by (intro div_le_mono) simp
  with n have "n \<le> Timeout conf div MinTimeout conf + 1" by simp
  with run k n1 show ?thesis
    by (intro exI [of _ n] exI [of _ w']) (simp add: WaitForState_def)
qed




text \<open>
  On the delete path it is the run in which the target IP stays listed that ends in the
  timeout error, under the same bounds.
\<close>

lemma delete_poll_timeout:
  assumes present: "\<forall>w'. clock w' \<le> clock w + 5 * Minute \<longrightarrow>
             (\<exists>whitelist. get_response client w' deploymentID = Inr whitelist
                \<and> (\<exists>e\<in>set whitelist. IP e = ip))"
  shows "\<exists>n w'. WaitForState (deleteStateChangeConf client deploymentID ip) w =
                Some (Returns (None, Some TimeoutError), w')
            \<and> calls w' = calls w @ replicate n (GetCall deploymentID)
            \<and> 1 \<le> n \<and> n \<le> 5 * Minute div (3 * Second) + 1"
proof -
  have never: "\<exists>res currentState.
          Refresh (deleteStateChangeConf client deploymentID ip) w' =
            (Returns (res, currentState, None), w'\<lparr>calls := calls w' @ [GetCall deploymentID]\<rparr>)
          \<and> classify (deleteStateChangeConf client deploymentID ip) res currentState = pending"
    if "clock w' \<le> clock w + Timeout (deleteStateChangeConf client deploymentID ip)" for w'
  proof -
    from that have "clock w' \<le> clock w + 5 * Minute" by simp
    with present have "\<exists>whitelist. get_response client w' deploymentID = Inr whitelist
                \<and> (\<exists>e\<in>set whitelist. IP e = ip)" by blast
    then obtain whitelist where
      g: "get_response client w' deploymentID = Inr whitelist"
      and a: "\<exists>e\<in>set whitelist. IP e = ip" by blast
    from a obtain e where "find (\<lambda>e. IP e = ip) whitelist = Some e"
      using find_listed [of "\<lambda>e. IP e = ip" whitelist] by blast
    then show ?thesis
      by (simp add: refresh_listing [OF g] classify_delete)
  qed
  have pos: "0 < MinTimeout (deleteStateChangeConf client deploymentID ip)"
    by (simp add: Second_def)
  have delay: "Delay (deleteStateChangeConf client deploymentID ip)
                 \<le> Timeout (deleteStateChangeConf client deploymentID ip)"
    by (simp add: Second_def Minute_def)
  from WaitForState_never_settled [of w "deleteStateChangeConf client deploymentID ip",
      OF never pos delay]
  show ?thesis by simp
qed

section \<open>Properties of the entry points\<close>

text \<open>
  C7. When the remote write fails (the add of create, the delete of delete), the entry
  point returns the error built from the write's errors; the world it returns in is the
  one it was called in with that write as the only call added (no read, and the clock has
  not moved: no polling), and the local resource state is the one it was given.
\<close>

theorem write_failure_aborts:
  "(add_response client w (Get d ''deployment_id'')
        \<lparr>ID = [], IP = Get d ''ip'', Description = Get d ''description''\<rparr> = Some errs \<longrightarrow>
      resourceComposeWhitelistCreate client d w =
        Some (Returns (Some (Errorf ''Error adding whitelist entry: %s'' errs)), d,
              w\<lparr>calls := calls w @ [AddCall (Get d ''deployment_id'')
                 \<lparr>ID = [], IP = Get d ''ip'', Description = Get d ''description''\<rparr>]\<rparr>))
   \<and> (delete_response client w (Get d ''deployment_id'') (Id' d) = Some errs \<longrightarrow>
      resourceComposeWhitelistDelete client d w =
        Some (Returns (Some (Errorf ''Error deleting whitelist entry: %s'' errs)), d,
              w\<lparr>calls := calls w @ [DeleteCall (Get d ''deployment_id'') (Id' d)]\<rparr>))"
  by (simp add: resourceComposeWhitelistCreate_def resourceComposeWhitelistDelete_def
      AddWhitelistForDeployment_def DeleteWhitelistForDeployment_def Let_def)

theorem write_failure_aborts_witness:
  "add_response refusing_client world0 (Get data0 ''deployment_id'')
        \<lparr>ID = [], IP = Get data0 ''ip'', Description = Get data0 ''description''\<rparr> =
      Some [''denied'']
   \<and> resourceComposeWhitelistCreate refusing_client data0 world0 =
        Some (Returns (Some (Errorf ''Error adding whitelist entry: %s'' [''denied''])), data0,
              \<lparr>clock = 0, calls = [AddCall ''d1''
                 \<lparr>ID = [], IP = ''10.0.0.0/24'', Description = ''x''\<rparr>], oversleep = []\<rparr>)
   \<and> delete_response refusing_client world0 (Get data0 ''deployment_id'') (Id' data0) =
      Some [''denied'']
   \<and> resourceComposeWhitelistDelete refusing_client data0 world0 =
        Some (Returns (Some (Errorf ''Error deleting whitelist entry: %s'' [''denied''])), data0,
              \<lparr>clock = 0, calls = [DeleteCall ''d1'' []], oversleep = []\<rparr>)"
proof -
  have a: "add_response refusing_client world0 (Get data0 ''deployment_id'')
        \<lparr>ID = [], IP = Get data0 ''ip'', Description = Get data0 ''description''\<rparr> =
      Some [''denied'']"
    by (simp add: refusing_client_def)
  have b: "delete_response refusing_client world0 (Get data0 ''deployment_id'') (Id' data0) =
      Some [''denied'']"
    by (simp add: refusing_client_def)
  have g: "Get data0 ''deployment_id'' = ''d1''" "Get data0 ''ip'' = ''10.0.0.0/24''"
    "Get data0 ''description'' = ''x''" "Id' data0 = []"
    by (simp_all add: Get_def Id'_def data0_def)
  from a b write_failure_aborts [of refusing_client world0 data0 "[''denied'']"]
  show ?thesis
    by (simp add: g world0_def)
qed

subsection \<open>Create\<close>

lemma Read_unfold:
  "resourceComposeWhitelistRead client d w =
     (case get_response client w (Get d ''deployment_id'') of
        Inl errs \<Rightarrow>
          (Returns (Some (Errorf ''Error querying whitelist entry: %s'' errs)), d,
           w\<lparr>calls := calls w @ [GetCall (Get d ''deployment_id'')]\<rparr>)
      | Inr whitelist \<Rightarrow>
          (case find (\<lambda>x. ID x = Id' d) whitelist of
             Some x \<Rightarrow>
               (Returns None,
                SetAttr (SetAttr d ''description'' (Description x)) ''ip'' (IP x),
                w\<lparr>calls := calls w @ [GetCall (Get d ''deployment_id'')]\<rparr>)
           | None \<Rightarrow>
               (Returns None, SetId d [],
                w\<lparr>calls := calls w @ [GetCall (Get d ''deployment_id'')]\<rparr>)))"
  by (simp add: resourceComposeWhitelistRead_def GetWhitelistForDeployment_def Let_def
      split: sum.splits option.splits)

lemma Get_SetId [simp]: "Get (SetId d i) k = Get d k"
  by (simp add: Get_def SetId_def)

lemma Id_SetId [simp]: "Id' (SetId d i) = i"
  by (simp add: Id'_def SetId_def)

lemma Id_SetAttr [simp]: "Id' (SetAttr d k v) = Id' d"
  by (simp add: Id'_def SetAttr_def)

text \<open>
  How a successful create went: the poll settled on a listing in which some entry has the
  target IP and returned the ID of the first such entry, which create drops; the
  identifier comes from the scan by description of the listing made after the poll, and
  is cleared when the closing read no longer lists it.
\<close>

lemma create_persists_description_match:
  assumes "resourceComposeWhitelistCreate client d w = Some (Returns None, d', w')"
  shows "\<exists>ws whitelist matched w2 newWhitelist entry closing.
           get_response client ws (Get d ''deployment_id'') = Inr whitelist
         \<and> find (\<lambda>e. IP e = Get d ''ip'') whitelist = Some matched
         \<and> WaitForState
             (createStateChangeConf client (Get d ''deployment_id'') (Get d ''ip''))
             (w\<lparr>calls := calls w @ [AddCall (Get d ''deployment_id'')
                \<lparr>ID = [], IP = Get d ''ip'', Description = Get d ''description''\<rparr>]\<rparr>) =
           Some (Returns (Some (ID matched), None), w2)
         \<and> w2 = ws\<lparr>calls := calls ws @ [GetCall (Get d ''deployment_id'')]\<rparr>
         \<and> get_response client w2 (Get d ''deployment_id'') = Inr newWhitelist
         \<and> find (\<lambda>e. Description e = Get d ''description'') newWhitelist = Some entry
         \<and> get_response client (w2\<lparr>calls := calls w2 @ [GetCall (Get d ''deployment_id'')]\<rparr>)
             (Get d ''deployment_id'') = Inr closing
         \<and> Id' d' = (if list_ex (\<lambda>x. ID x = ID entry) closing then ID entry else [])"
proof -
  let ?dep = "Get d ''deployment_id''"
  let ?w1 = "w\<lparr>calls := calls w @ [AddCall ?dep
                \<lparr>ID = [], IP = Get d ''ip'', Description = Get d ''description''\<rparr>]\<rparr>"
  let ?conf = "createStateChangeConf client ?dep (Get d ''ip'')"
  from assms have add: "add_response client w ?dep
             \<lparr>ID = [], IP = Get d ''ip'', Description = Get d ''description''\<rparr> = None"
    by (auto simp add: resourceComposeWhitelistCreate_def AddWhitelistForDeployment_def Let_def
        split: option.splits)
  from assms add obtain v w2 where wait: "WaitForState ?conf ?w1 = Some (Returns (v, None), w2)"
    by (auto simp add: resourceComposeWhitelistCreate_def AddWhitelistForDeployment_def Let_def
        split: option.splits go.splits prod.splits)
  from create_poll_value [OF wait [unfolded WaitForState_def]]
  obtain ws whitelist matched where
    g: "get_response client ws ?dep = Inr whitelist"
    and f: "find (\<lambda>e. IP e = Get d ''ip'') whitelist = Some matched"
    and v: "v = Some (ID matched)"
    and w2: "w2 = ws\<lparr>calls := calls ws @ [GetCall ?dep]\<rparr>"
    by blast
  let ?w3 = "w2\<lparr>calls := calls w2 @ [GetCall ?dep]\<rparr>"
  from assms add wait obtain newWhitelist where
    g2: "get_response client w2 ?dep = Inr newWhitelist"
    by (cases "get_response client w2 ?dep")
       (auto simp add: resourceComposeWhitelistCreate_def AddWhitelistForDeployment_def
         GetWhitelistForDeployment_def Let_def)
  have run: "resourceComposeWhitelistCreate client d w =
      (case find (\<lambda>e. Description e = Get d ''description'') newWhitelist of
         None \<Rightarrow>
           Some (Returns (Some (ErrorsNew ''Failed to find newly created whitelist entry'')),
                 d, ?w3)
       | Some e \<Rightarrow> Some (resourceComposeWhitelistRead client (SetId d (ID e)) ?w3))"
    using add wait g2
    by (simp add: resourceComposeWhitelistCreate_def AddWhitelistForDeployment_def
        GetWhitelistForDeployment_def Let_def)
  from assms run obtain entry where
    f2: "find (\<lambda>e. Description e = Get d ''description'') newWhitelist = Some entry"
    by (cases "find (\<lambda>e. Description e = Get d ''description'') newWhitelist") auto
  from assms run f2 have closing_read:
    "resourceComposeWhitelistRead client (SetId d (ID entry)) ?w3 = (Returns None, d', w')"
    by simp
  then obtain closing where
    g3: "get_response client ?w3 ?dep = Inr closing"
    by (cases "get_response client ?w3 ?dep") (auto simp add: Read_unfold)
  have "Id' d' = (if list_ex (\<lambda>x. ID x = ID entry) closing then ID entry else [])"
  proof (cases "find (\<lambda>x. ID x = ID entry) closing")
    case None
    then have "\<not> list_ex (\<lambda>x. ID x = ID entry) closing"
      by (simp add: find_unlisted list_ex_iff)
    with closing_read g3 None show ?thesis by (auto simp add: Read_unfold)
  next
    case (Some x)
    then have "list_ex (\<lambda>x. ID x = ID entry) closing"
      using find_listed [of "\<lambda>x. ID x = ID entry" closing] by (simp add: list_ex_iff)
    with closing_read g3 Some show ?thesis by (auto simp add: Read_unfold)
  qed
  with g f wait v w2 g2 f2 g3 show ?thesis by blast
qed

lemmas run_defs =
  resourceComposeWhitelistCreate_def AddWhitelistForDeployment_def
  GetWhitelistForDeployment_def resourceComposeWhitelistRead_def
  WaitForState_def poll.simps whitelistCompletedRefreshFunc_def classify_create
  data0_def world0_def SetId_def SetAttr_def Get_def Id'_def sleep_def Let_def

text \<open>The run of create on a listing of two entries with the requested description.\<close>

lemma create_run_two_entries:
  "resourceComposeWhitelistCreate (steady_client [entry_a, entry_b]) data0 world0 =
     Some (Returns None,
           SetAttr (SetAttr (SetId data0 ''a'') ''description'' ''x'') ''ip'' ''1.1.1.1/32'',
           \<lparr>clock = 10 * Second,
            calls = [AddCall ''d1'' \<lparr>ID = [], IP = ''10.0.0.0/24'', Description = ''x''\<rparr>,
                     GetCall ''d1'', GetCall ''d1'', GetCall ''d1''],
            oversleep = []\<rparr>)"
  by (simp add: run_defs steady_client_def entry_a_def entry_b_def)

lemma poll_run_two_entries:
  "WaitForState (createStateChangeConf (steady_client [entry_a, entry_b]) ''d1'' ''10.0.0.0/24'')
     \<lparr>clock = 0,
      calls = [AddCall ''d1'' \<lparr>ID = [], IP = ''10.0.0.0/24'', Description = ''x''\<rparr>],
      oversleep = []\<rparr> =
   Some (Returns (Some ''b'', None),
         \<lparr>clock = 10 * Second,
          calls = [AddCall ''d1'' \<lparr>ID = [], IP = ''10.0.0.0/24'', Description = ''x''\<rparr>,
                   GetCall ''d1''],
          oversleep = []\<rparr>)"
  by (simp add: run_defs steady_client_def entry_a_def entry_b_def)

lemma import_run_two_entries:
  "Id' (fst (snd (resourceComposeWhitelistImport (steady_client [entry_a, entry_b])
         (SetId data0 ''d1@10.0.0.0/24'') world0))) = ''b''"
  by (simp add: resourceComposeWhitelistImport_def GetWhitelistForDeployment_def
      steady_client_def entry_a_def entry_b_def SetId_def SetAttr_def Id'_def Let_def)

text \<open>
  C1. A successful create should persist the identifier of the entry matched by the
  target IP, the one the poll returns. It does not at a listing of two entries that both
  carry the requested description: for the requested IP \<^verbatim>\<open>10.0.0.0/24\<close> the poll returns
  \<^verbatim>\<open>b\<close>, the ID of the entry with that IP, yet create succeeds with the identifier
  \<^verbatim>\<open>a\<close>, the first entry with the description, and with the \<^verbatim>\<open>ip\<close> attribute
  overwritten by that entry's \<^verbatim>\<open>1.1.1.1/32\<close>. Import of \<^verbatim>\<open>d1@10.0.0.0/24\<close> on the same
  listing binds \<^verbatim>\<open>b\<close>.
\<close>

theorem create_persists_other_entry:
  "Get data0 ''ip'' = ''10.0.0.0/24''
   \<and> WaitForState (createStateChangeConf (steady_client [entry_a, entry_b]) ''d1'' ''10.0.0.0/24'')
     \<lparr>clock = 0,
      calls = [AddCall ''d1'' \<lparr>ID = [], IP = ''10.0.0.0/24'', Description = ''x''\<rparr>],
      oversleep = []\<rparr> =
   Some (Returns (Some ''b'', None),
         \<lparr>clock = 10 * Second,
          calls = [AddCall ''d1'' \<lparr>ID = [], IP = ''10.0.0.0/24'', Description = ''x''\<rparr>,
                   GetCall ''d1''],
          oversleep = []\<rparr>)
   \<and> resourceComposeWhitelistCreate (steady_client [entry_a, entry_b]) data0 world0 =
     Some (Returns None,
           SetAttr (SetAttr (SetId data0 ''a'') ''description'' ''x'') ''ip'' ''1.1.1.1/32'',
           \<lparr>clock = 10 * Second,
            calls = [AddCall ''d1'' \<lparr>ID = [], IP = ''10.0.0.0/24'', Description = ''x''\<rparr>,
                     GetCall ''d1'', GetCall ''d1'', GetCall ''d1''],
            oversleep = []\<rparr>)
   \<and> Id' (SetAttr (SetAttr (SetId data0 ''a'') ''description'' ''x'') ''ip'' ''1.1.1.1/32'') = ''a''
   \<and> Get (SetAttr (SetAttr (SetId data0 ''a'') ''description'' ''x'') ''ip'' ''1.1.1.1/32'') ''ip''
       = ''1.1.1.1/32''
   \<and> Id' (fst (snd (resourceComposeWhitelistImport (steady_client [entry_a, entry_b])
         (SetId data0 ''d1@10.0.0.0/24'') world0))) = ''b''"
proof -
  have "Get data0 ''ip'' = ''10.0.0.0/24''"
    and "Id' (SetAttr (SetAttr (SetId data0 ''a'') ''description'' ''x'') ''ip'' ''1.1.1.1/32'') = ''a''"
    and "Get (SetAttr (SetAttr (SetId data0 ''a'') ''description'' ''x'') ''ip'' ''1.1.1.1/32'') ''ip''
       = ''1.1.1.1/32''"
    by (simp_all add: Get_def SetAttr_def Id'_def SetId_def data0_def)
  with create_run_two_entries poll_run_two_entries import_run_two_entries show ?thesis
    by blast
qed

text \<open>
  C10 (as amended). After the create poll settles, create lists once more. When no entry
  of that listing has the requested description, create returns the error
  \<^verbatim>\<open>Failed to find newly created whitelist entry\<close>, whatever the poll saw. Otherwise it
  sets the identifier to that of the first entry with the requested description (whose
  IP may be another) and returns what the closing read returns on one more listing: the
  read error when that listing fails; otherwise success, with \<^verbatim>\<open>description\<close> and
  \<^verbatim>\<open>ip\<close> taken from the first entry with that identifier, or with the identifier
  cleared when no entry has it.
\<close>

theorem create_after_poll:
  assumes "add_response client w (Get d ''deployment_id'')
             \<lparr>ID = [], IP = Get d ''ip'', Description = Get d ''description''\<rparr> = None"
    and "WaitForState
           (createStateChangeConf client (Get d ''deployment_id'') (Get d ''ip''))
           (w\<lparr>calls := calls w @ [AddCall (Get d ''deployment_id'')
              \<lparr>ID = [], IP = Get d ''ip'', Description = Get d ''description''\<rparr>]\<rparr>) =
         Some (Returns (v, None), w2)"
    and "get_response client w2 (Get d ''deployment_id'') = Inr newWhitelist"
  shows "resourceComposeWhitelistCreate client d w =
           (case find (\<lambda>e. Description e = Get d ''description'') newWhitelist of
              None \<Rightarrow>
                Some (Returns (Some (ErrorsNew ''Failed to find newly created whitelist entry'')),
                      d, w2\<lparr>calls := calls w2 @ [GetCall (Get d ''deployment_id'')]\<rparr>)
            | Some e \<Rightarrow>
                (case get_response client
                        (w2\<lparr>calls := calls w2 @ [GetCall (Get d ''deployment_id'')]\<rparr>)
                        (Get d ''deployment_id'') of
                   Inl errs \<Rightarrow>
                     Some (Returns (Some (Errorf ''Error querying whitelist entry: %s'' errs)),
                           SetId d (ID e),
                           w2\<lparr>calls := calls w2 @ [GetCall (Get d ''deployment_id''),
                                                  GetCall (Get d ''deployment_id'')]\<rparr>)
                 | Inr whitelist \<Rightarrow>
                     (case find (\<lambda>x. ID x = ID e) whitelist of
                        Some x \<Rightarrow>
                          Some (Returns None,
                                SetAttr (SetAttr (SetId d (ID e)) ''description'' (Description x))
                                  ''ip'' (IP x),
                                w2\<lparr>calls := calls w2 @ [GetCall (Get d ''deployment_id''),
                                                       GetCall (Get d ''deployment_id'')]\<rparr>)
                      | None \<Rightarrow>
                          Some (Returns None, SetId (SetId d (ID e)) [],
                                w2\<lparr>calls := calls w2 @ [GetCall (Get d ''deployment_id''),
                                                       GetCall (Get d ''deployment_id'')]\<rparr>))))"
  using assms
  by (simp add: resourceComposeWhitelistCreate_def AddWhitelistForDeployment_def
      GetWhitelistForDeployment_def Read_unfold Let_def
      split: option.splits sum.splits)

text \<open>
  The claim as first stated, at a service whose third read fails: the listing made after
  the poll has an entry with the requested description, and create returns an error.
\<close>

theorem create_fails_after_description_match:
  "get_response (flaky_client 3 [entry_b])
     \<lparr>clock = 10 * Second,
      calls = [AddCall ''d1'' \<lparr>ID = [], IP = ''10.0.0.0/24'', Description = ''x''\<rparr>,
               GetCall ''d1''],
      oversleep = []\<rparr> ''d1'' = Inr [entry_b]
   \<and> Description entry_b = Get data0 ''description''
   \<and> resourceComposeWhitelistCreate (flaky_client 3 [entry_b]) data0 world0 =
     Some (Returns (Some (Errorf ''Error querying whitelist entry: %s'' [''unavailable''])),
           SetId data0 ''b'',
           \<lparr>clock = 10 * Second,
            calls = [AddCall ''d1'' \<lparr>ID = [], IP = ''10.0.0.0/24'', Description = ''x''\<rparr>,
                     GetCall ''d1'', GetCall ''d1'', GetCall ''d1''],
            oversleep = []\<rparr>)"
  by (simp add: run_defs flaky_client_def entry_b_def)

theorem create_after_poll_witness:
  "add_response (steady_client [entry_c]) world0 (Get data0 ''deployment_id'')
     \<lparr>ID = [], IP = Get data0 ''ip'', Description = Get data0 ''description''\<rparr> = None
   \<and> WaitForState
        (createStateChangeConf (steady_client [entry_c]) (Get data0 ''deployment_id'')
           (Get data0 ''ip''))
        (world0\<lparr>calls := calls world0 @ [AddCall (Get data0 ''deployment_id'')
           \<lparr>ID = [], IP = Get data0 ''ip'', Description = Get data0 ''description''\<rparr>]\<rparr>) =
      Some (Returns (Some ''c'', None),
            \<lparr>clock = 10 * Second,
             calls = [AddCall ''d1'' \<lparr>ID = [], IP = ''10.0.0.0/24'', Description = ''x''\<rparr>,
                      GetCall ''d1''],
             oversleep = []\<rparr>)
   \<and> get_response (steady_client [entry_c])
        \<lparr>clock = 10 * Second,
         calls = [AddCall ''d1'' \<lparr>ID = [], IP = ''10.0.0.0/24'', Description = ''x''\<rparr>,
                  GetCall ''d1''],
         oversleep = []\<rparr> (Get data0 ''deployment_id'') = Inr [entry_c]
   \<and> resourceComposeWhitelistCreate (steady_client [entry_c]) data0 world0 =
      Some (Returns (Some (ErrorsNew ''Failed to find newly created whitelist entry'')),
            data0,
            \<lparr>clock = 10 * Second,
             calls = [AddCall ''d1'' \<lparr>ID = [], IP = ''10.0.0.0/24'', Description = ''x''\<rparr>,
                      GetCall ''d1'', GetCall ''d1''],
             oversleep = []\<rparr>)"
proof -
  let ?w2 = "\<lparr>clock = 10 * Second,
             calls = [AddCall ''d1'' \<lparr>ID = [], IP = ''10.0.0.0/24'', Description = ''x''\<rparr>,
                      GetCall ''d1''],
             oversleep = []\<rparr>"
  have a: "add_response (steady_client [entry_c]) world0 (Get data0 ''deployment_id'')
     \<lparr>ID = [], IP = Get data0 ''ip'', Description = Get data0 ''description''\<rparr> = None"
    by (simp add: steady_client_def)
  have p: "WaitForState
        (createStateChangeConf (steady_client [entry_c]) (Get data0 ''deployment_id'')
           (Get data0 ''ip''))
        (world0\<lparr>calls := calls world0 @ [AddCall (Get data0 ''deployment_id'')
           \<lparr>ID = [], IP = Get data0 ''ip'', Description = Get data0 ''description''\<rparr>]\<rparr>) =
      Some (Returns (Some ''c'', None), ?w2)"
    by (simp add: run_defs steady_client_def entry_c_def)
  have g: "get_response (steady_client [entry_c]) ?w2 (Get data0 ''deployment_id'') =
      Inr [entry_c]"
    by (simp add: steady_client_def)
  have f: "find (\<lambda>e. Description e = Get data0 ''description'') [entry_c] = None"
    by (simp add: entry_c_def Get_def data0_def)
  have d: "Get data0 ''deployment_id'' = ''d1''"
    by (simp add: Get_def data0_def)
  from create_after_poll [OF a p g] f
  have "resourceComposeWhitelistCreate (steady_client [entry_c]) data0 world0 =
      Some (Returns (Some (ErrorsNew ''Failed to find newly created whitelist entry'')),
            data0, ?w2\<lparr>calls := calls ?w2 @ [GetCall ''d1'']\<rparr>)"
    by (simp add: d)
  with a p g show ?thesis by simp
qed

subsection \<open>Import\<close>

lemma Split_no_separator:
  "sep \<notin> set s \<Longrightarrow> Split sep piece s = [rev piece @ s]"
  by (induction s arbitrary: piece) auto

lemma Split_nonempty:
  "\<exists>a rest. Split sep piece s = a # rest"
  by (induction s arbitrary: piece) auto

lemma find_Some_holds:
  "find P xs = Some e \<Longrightarrow> P e"
  by (induction xs) (auto split: if_splits)

lemma Split_separator:
  "sep \<in> set s \<Longrightarrow> \<exists>a b rest. Split sep piece s = a # b # rest"
proof (induction s arbitrary: piece)
  case Nil
  then show ?case by simp
next
  case (Cons c s)
  show ?case
  proof (cases "c = sep")
    case True
    with Split_nonempty [of sep "[]" s] show ?thesis by auto
  next
    case False
    with Cons show ?thesis by simp
  qed
qed

lemma Split_two:
  assumes "sep \<notin> set a" "sep \<notin> set b"
  shows "Split sep piece (a @ sep # b) = [rev piece @ a, b]"
  using assms by (induction a arbitrary: piece) (auto simp add: Split_no_separator)

text \<open>
  C8. For an identifier with no \<^verbatim>\<open>@\<close> the import entry point panics with an index out
  of range, before any call to the service and with the local state untouched; for an
  identifier with an \<^verbatim>\<open>@\<close> it returns.
\<close>

theorem import_panics_iff_no_separator:
  "(CHR ''@'' \<notin> set (Id' d) \<longrightarrow>
      resourceComposeWhitelistImport client d w = (Panics IndexOutOfRange, d, w))
   \<and> (CHR ''@'' \<in> set (Id' d) \<longrightarrow>
      (\<exists>r. fst (resourceComposeWhitelistImport client d w) = Returns r))"
proof (intro conjI impI)
  assume "CHR ''@'' \<notin> set (Id' d)"
  then show "resourceComposeWhitelistImport client d w = (Panics IndexOutOfRange, d, w)"
    by (simp add: resourceComposeWhitelistImport_def Split_no_separator)
next
  assume "CHR ''@'' \<in> set (Id' d)"
  from Split_separator [OF this, of "[]"] obtain a b rest where
    "Split CHR ''@'' [] (Id' d) = a # b # rest" by blast
  then show "\<exists>r. fst (resourceComposeWhitelistImport client d w) = Returns r"
    by (simp add: resourceComposeWhitelistImport_def GetWhitelistForDeployment_def Let_def
        split: sum.splits option.splits)
qed

theorem import_panics_iff_no_separator_witness:
  "CHR ''@'' \<notin> set (Id' (SetId data0 ''d1''))
   \<and> resourceComposeWhitelistImport (steady_client [entry_b]) (SetId data0 ''d1'') world0 =
       (Panics IndexOutOfRange, SetId data0 ''d1'', world0)
   \<and> CHR ''@'' \<in> set (Id' (SetId data0 ''d1@10.0.0.0/24''))
   \<and> (\<exists>r. fst (resourceComposeWhitelistImport (steady_client [entry_b])
               (SetId data0 ''d1@10.0.0.0/24'') world0) = Returns r)"
proof -
  have a: "CHR ''@'' \<notin> set (Id' (SetId data0 ''d1''))"
    by (simp add: Id'_def SetId_def)
  have b: "CHR ''@'' \<in> set (Id' (SetId data0 ''d1@10.0.0.0/24''))"
    by (simp add: Id'_def SetId_def)
  from a b
    import_panics_iff_no_separator [of "SetId data0 ''d1''" "steady_client [entry_b]" world0]
    import_panics_iff_no_separator [of "SetId data0 ''d1@10.0.0.0/24''" "steady_client [entry_b]" world0]
  show ?thesis by blast
qed

text \<open>
  C6. Import of the identifier \<^verbatim>\<open><deployment>@<ip>\<close>, when the read endpoint lists the
  deployment: if some entry has the parsed IP, import returns one resource, whose
  identifier is the ID of the first such entry and whose \<^verbatim>\<open>deployment_id\<close>,
  \<^verbatim>\<open>description\<close> and \<^verbatim>\<open>ip\<close> are the parsed deployment and that entry's description and
  IP; if no entry has it, import returns no resource and the error
  \<^verbatim>\<open>Whitelist item not found\<close>, which is not the error of a failed read.
\<close>

theorem import_finds_entry_by_ip:
  assumes "Id' d = deployment @ ''@'' @ ip"
    and "CHR ''@'' \<notin> set deployment" and "CHR ''@'' \<notin> set ip"
    and "get_response client w deployment = Inr whitelist"
  shows "resourceComposeWhitelistImport client d w =
           (case find (\<lambda>e. IP e = ip) whitelist of
              Some e \<Rightarrow>
                (Returns
                   ([SetId (SetAttr (SetAttr (SetAttr d ''deployment_id'' deployment)
                        ''description'' (Description e)) ''ip'' (IP e)) (ID e)], None),
                 SetId (SetAttr (SetAttr (SetAttr d ''deployment_id'' deployment)
                        ''description'' (Description e)) ''ip'' (IP e)) (ID e),
                 w\<lparr>calls := calls w @ [GetCall deployment]\<rparr>)
            | None \<Rightarrow>
                (Returns ([], Some (Errorf ''Whitelist item not found'' [])), d,
                 w\<lparr>calls := calls w @ [GetCall deployment]\<rparr>))
       \<and> (\<forall>e. find (\<lambda>e. IP e = ip) whitelist = Some e \<longrightarrow>
            (let d' = fst (snd (resourceComposeWhitelistImport client d w))
             in Id' d' = ID e \<and> Get d' ''deployment_id'' = deployment
                \<and> Get d' ''description'' = Description e \<and> Get d' ''ip'' = ip))"
proof -
  have s: "Split CHR ''@'' [] (Id' d) = [deployment, ip]"
    using assms(1-3) Split_two [of "CHR ''@''" deployment ip "[]"] by simp
  have imp: "resourceComposeWhitelistImport client d w =
           (case find (\<lambda>e. IP e = ip) whitelist of
              Some e \<Rightarrow>
                (Returns
                   ([SetId (SetAttr (SetAttr (SetAttr d ''deployment_id'' deployment)
                        ''description'' (Description e)) ''ip'' (IP e)) (ID e)], None),
                 SetId (SetAttr (SetAttr (SetAttr d ''deployment_id'' deployment)
                        ''description'' (Description e)) ''ip'' (IP e)) (ID e),
                 w\<lparr>calls := calls w @ [GetCall deployment]\<rparr>)
            | None \<Rightarrow>
                (Returns ([], Some (Errorf ''Whitelist item not found'' [])), d,
                 w\<lparr>calls := calls w @ [GetCall deployment]\<rparr>))"
    using assms(4)
    by (simp add: resourceComposeWhitelistImport_def s GetWhitelistForDeployment_def Let_def
        split: option.splits)
  have "IP e = ip" if "find (\<lambda>e. IP e = ip) whitelist = Some e" for e
    using find_Some_holds [OF that] .
  then show ?thesis
    unfolding imp
    by (auto simp add: Let_def Id'_def SetId_def Get_def SetAttr_def)
qed

theorem import_finds_entry_by_ip_witness:
  "Id' (SetId data0 ''d1@10.0.0.0/24'') = ''d1'' @ ''@'' @ ''10.0.0.0/24''
   \<and> CHR ''@'' \<notin> set ''d1'' \<and> CHR ''@'' \<notin> set ''10.0.0.0/24''
   \<and> get_response (steady_client [entry_a, entry_b]) world0 ''d1'' = Inr [entry_a, entry_b]
   \<and> Id' (fst (snd (resourceComposeWhitelistImport (steady_client [entry_a, entry_b])
        (SetId data0 ''d1@10.0.0.0/24'') world0))) = ''b''
   \<and> get_response (steady_client [entry_a]) world0 ''d1'' = Inr [entry_a]
   \<and> fst (resourceComposeWhitelistImport (steady_client [entry_a])
        (SetId data0 ''d1@10.0.0.0/24'') world0) =
       Returns ([], Some (Errorf ''Whitelist item not found'' []))"
proof -
  have i: "Id' (SetId data0 ''d1@10.0.0.0/24'') = ''d1'' @ ''@'' @ ''10.0.0.0/24''"
    by (simp add: Id'_def SetId_def)
  have a: "CHR ''@'' \<notin> set ''d1''" and b: "CHR ''@'' \<notin> set ''10.0.0.0/24''"
    by simp_all
  have g: "get_response (steady_client [entry_a, entry_b]) world0 ''d1'' = Inr [entry_a, entry_b]"
    and g': "get_response (steady_client [entry_a]) world0 ''d1'' = Inr [entry_a]"
    by (simp_all add: steady_client_def)
  have f: "find (\<lambda>e. IP e = ''10.0.0.0/24'') [entry_a, entry_b] = Some entry_b"
    and f': "find (\<lambda>e. IP e = ''10.0.0.0/24'') [entry_a] = None"
    by (simp_all add: entry_a_def entry_b_def)
  from import_finds_entry_by_ip [OF i a b g] f
  have "Id' (fst (snd (resourceComposeWhitelistImport (steady_client [entry_a, entry_b])
        (SetId data0 ''d1@10.0.0.0/24'') world0))) = ID entry_b"
    by (simp add: Let_def Id'_def SetId_def)
  moreover from import_finds_entry_by_ip [OF i a b g'] f'
  have "fst (resourceComposeWhitelistImport (steady_client [entry_a])
        (SetId data0 ''d1@10.0.0.0/24'') world0) =
       Returns ([], Some (Errorf ''Whitelist item not found'' []))"
    by simp
  ultimately show ?thesis
    using i a b g g' by (simp add: entry_b_def)
qed

end
